theory Spec2Isabelle
  imports Complex_Main "HOL-Library.Char_ord" "HOL-Library.List_Lexorder"
begin

section \<open>Python strings\<close>

text \<open>
  A Python \<open>str\<close> is modelled as a \<^typ>\<open>string\<close> of ASCII characters: the character
  classes and \<open>lower()\<close> below agree with Python on the code points below 128.
  Floats (amounts, similarity scores, \<open>difflib\<close> ratios) are modelled as exact rationals.
\<close>

definition code :: "char \<Rightarrow> nat" where
  "code c = of_char c"

definition is_upper :: "char \<Rightarrow> bool" where
  "is_upper c = (65 \<le> code c \<and> code c \<le> 90)"

definition is_lower :: "char \<Rightarrow> bool" where
  "is_lower c = (97 \<le> code c \<and> code c \<le> 122)"

definition is_alpha :: "char \<Rightarrow> bool" where
  "is_alpha c = (is_upper c \<or> is_lower c)"

definition is_digit :: "char \<Rightarrow> bool" where
  "is_digit c = (48 \<le> code c \<and> code c \<le> 57)"

text \<open>\<open>\w\<close>: letters, digits and the underscore.\<close>

definition is_word :: "char \<Rightarrow> bool" where
  "is_word c = (is_alpha c \<or> is_digit c \<or> code c = 95)"

text \<open>\<open>\s\<close>: tab, newline, vertical tab, form feed, carriage return, the four
  separators \<open>0x1c..0x1f\<close> and the space.\<close>

definition is_space :: "char \<Rightarrow> bool" where
  "is_space c = ((9 \<le> code c \<and> code c \<le> 13) \<or> (28 \<le> code c \<and> code c \<le> 32))"

text \<open>\<open>.\<close>: any character but the newline.\<close>

definition is_dot :: "char \<Rightarrow> bool" where
  "is_dot c = (code c \<noteq> 10)"

definition lower_char :: "char \<Rightarrow> char" where
  "lower_char c = (if is_upper c then char_of (code c + 32) else c)"

definition upper_char :: "char \<Rightarrow> char" where
  "upper_char c = (if is_lower c then char_of (code c - 32) else c)"

definition lower :: "string \<Rightarrow> string" where
  "lower s = map lower_char s"

text \<open>\<open>s.capitalize()\<close>: first character upper-cased, the rest lower-cased.\<close>

definition capitalize :: "string \<Rightarrow> string" where
  "capitalize s = (case s of [] \<Rightarrow> [] | c # cs \<Rightarrow> upper_char c # lower cs)"

text \<open>\<open>s.startswith(x)\<close> and the substring test \<open>x in s\<close>.\<close>

definition startswith :: "string \<Rightarrow> string \<Rightarrow> bool" where
  "startswith s x = (take (length x) s = x)"

fun str_in :: "string \<Rightarrow> string \<Rightarrow> bool" where
  "str_in x [] = (x = [])"
| "str_in x (c # cs) = (startswith (c # cs) x \<or> str_in x cs)"

text \<open>\<open>sep.join(parts)\<close>.\<close>

fun join :: "string \<Rightarrow> string list \<Rightarrow> string" where
  "join sep [] = []"
| "join sep [p] = p"
| "join sep (p # q # ps) = p @ sep @ join sep (q # ps)"

text \<open>\<open>s.split()\<close>: the maximal runs of non-whitespace characters.\<close>

fun split_ws :: "string \<Rightarrow> string \<Rightarrow> string list" where
  "split_ws acc [] = (if acc = [] then [] else [acc])"
| "split_ws acc (c # cs) =
     (if is_space c then (if acc = [] then split_ws [] cs else acc # split_ws [] cs)
      else split_ws (acc @ [c]) cs)"

definition split :: "string \<Rightarrow> string list" where
  "split s = split_ws [] s"

section \<open>Regular expressions of the \<open>re\<close> module\<close>

text \<open>
  The patterns of the search service use a word boundary, character classes, literals,
  greedy and lazy repetition of one class, an optional group and an alternative.
  \<open>rx_ends r s i\<close> lists the positions where a match of \<open>r\<close> that starts at position
  \<open>i\<close> of \<open>s\<close> can end, in the order in which the backtracking matcher tries them.
\<close>

datatype rx =
    Bnd
  | Cls "char \<Rightarrow> bool"
  | Many "char \<Rightarrow> bool" nat
  | Few "char \<Rightarrow> bool" nat
  | Seq rx rx
  | Alt rx rx
  | Opt rx

definition word_at :: "string \<Rightarrow> nat \<Rightarrow> bool" where
  "word_at s i = (i < length s \<and> is_word (s ! i))"

definition boundary :: "string \<Rightarrow> nat \<Rightarrow> bool" where
  "boundary s i = ((i > 0 \<and> word_at s (i - 1)) \<noteq> word_at s i)"

definition run :: "(char \<Rightarrow> bool) \<Rightarrow> string \<Rightarrow> nat \<Rightarrow> nat" where
  "run p s i = length (takeWhile p (drop i s))"

fun rx_ends :: "rx \<Rightarrow> string \<Rightarrow> nat \<Rightarrow> nat list" where
  "rx_ends Bnd s i = (if boundary s i then [i] else [])"
| "rx_ends (Cls p) s i = (if i < length s \<and> p (s ! i) then [i + 1] else [])"
| "rx_ends (Many p m) s i = map (\<lambda>k. i + k) (rev [m ..< run p s i + 1])"
| "rx_ends (Few p m) s i = map (\<lambda>k. i + k) [m ..< run p s i + 1]"
| "rx_ends (Seq r1 r2) s i = concat (map (rx_ends r2 s) (rx_ends r1 s i))"
| "rx_ends (Alt r1 r2) s i = rx_ends r1 s i @ rx_ends r2 s i"
| "rx_ends (Opt r) s i = rx_ends r s i @ [i]"

text \<open>A literal, read case-sensitively or (under \<open>re.IGNORECASE\<close>) not.\<close>

fun lit :: "string \<Rightarrow> rx \<Rightarrow> rx" where
  "lit [] r = r"
| "lit (c # cs) r = Seq (Cls (\<lambda>x. x = c)) (lit cs r)"

fun lit_i :: "string \<Rightarrow> rx \<Rightarrow> rx" where
  "lit_i [] r = r"
| "lit_i (c # cs) r = Seq (Cls (\<lambda>x. lower_char x = lower_char c)) (lit_i cs r)"

text \<open>
  A pattern is split into the part before its capturing group, the group and the part
  after it. \<open>rx_match_at\<close> is the first match at position \<open>i\<close>: the start and end of the
  group and the end of the whole match.
\<close>

definition rx_match_at :: "rx \<Rightarrow> rx \<Rightarrow> rx \<Rightarrow> string \<Rightarrow> nat \<Rightarrow> (nat \<times> nat \<times> nat) option" where
  "rx_match_at pre grp post s i =
     (case concat (map (\<lambda>e1. concat (map (\<lambda>e2. map (\<lambda>e3. (e1, e2, e3)) (rx_ends post s e2))
                                           (rx_ends grp s e1)))
                       (rx_ends pre s i)) of
        [] \<Rightarrow> None
      | m # _ \<Rightarrow> Some m)"

definition slice :: "string \<Rightarrow> nat \<Rightarrow> nat \<Rightarrow> string" where
  "slice s i j = take (j - i) (drop i s)"

text \<open>\<open>re.findall\<close>: the groups of the successive non-overlapping matches, scanning
  from the left. None of the patterns used matches the empty string.\<close>

function findall_from :: "rx \<Rightarrow> rx \<Rightarrow> rx \<Rightarrow> string \<Rightarrow> nat \<Rightarrow> string list" where
  "findall_from pre grp post s i =
     (if i > length s then []
      else case rx_match_at pre grp post s i of
             None \<Rightarrow> findall_from pre grp post s (i + 1)
           | Some (e1, e2, e3) \<Rightarrow> slice s e1 e2 # findall_from pre grp post s (max e3 (i + 1)))"
  by pat_completeness auto
termination
  by (relation "measure (\<lambda>(pre, grp, post, s, i). length s + 1 - i)") auto

definition findall :: "rx \<Rightarrow> rx \<Rightarrow> rx \<Rightarrow> string \<Rightarrow> string list" where
  "findall pre grp post s = findall_from pre grp post s 0"

text \<open>\<open>re.search(...).group(1)\<close>: the group of the first match, if any.\<close>

definition search_group :: "rx \<Rightarrow> rx \<Rightarrow> rx \<Rightarrow> string \<Rightarrow> string option" where
  "search_group pre grp post s =
     (case findall pre grp post s of [] \<Rightarrow> None | g # _ \<Rightarrow> Some g)"

text \<open>The empty pattern, for a group at the start or the end of a pattern.\<close>

definition Eps :: rx where
  "Eps = Few (\<lambda>c. False) 0"

text \<open>\<open>re.findall(r'\b\w+\b', s)\<close>\<close>

definition words_of :: "string \<Rightarrow> string list" where
  "words_of s = findall Bnd (Many is_word 1) Bnd s"

section \<open>The \<open>difflib\<close> module\<close>

text \<open>
  \<open>SequenceMatcher(None, a, b)\<close>: no junk predicate is given, so the set of junk
  elements is empty; with the default \<open>autojunk\<close>, an element that occurs more than
  \<open>len(b) // 100 + 1\<close> times in a \<open>b\<close> of at least 200 elements is popular and is
  removed from \<open>b2j\<close>.
\<close>

type_synonym match = "nat \<times> nat \<times> nat"

definition b2j :: "string \<Rightarrow> char \<Rightarrow> nat list" where
  "b2j b c =
     (if 200 \<le> length b \<and> length b div 100 + 1 < count_list b c then []
      else filter (\<lambda>j. b ! j = c) [0 ..< length b])"

text \<open>The inner loop of \<open>find_longest_match\<close> over the positions \<open>j\<close> of \<open>a[i]\<close> in \<open>b\<close>.\<close>

fun scan_js ::
  "nat \<Rightarrow> nat \<Rightarrow> nat \<Rightarrow> (nat \<times> nat) list \<Rightarrow> nat list \<Rightarrow> (nat \<times> nat) list \<times> match
     \<Rightarrow> (nat \<times> nat) list \<times> match" where
  "scan_js i blo bhi j2len [] st = st"
| "scan_js i blo bhi j2len (j # js) (newj2len, best) =
     (if j < blo then scan_js i blo bhi j2len js (newj2len, best)
      else if bhi \<le> j then (newj2len, best)
      else
        let k = (if j = 0 then 0
                 else case map_of j2len (j - 1) of None \<Rightarrow> 0 | Some v \<Rightarrow> v) + 1
        in scan_js i blo bhi j2len js
             ((j, k) # newj2len,
              if snd (snd best) < k then (i + 1 - k, j + 1 - k, k) else best))"

text \<open>The outer loop over \<open>i\<close> in \<open>range(alo, ahi)\<close>.\<close>

fun scan_is ::
  "string \<Rightarrow> string \<Rightarrow> nat \<Rightarrow> nat \<Rightarrow> nat list \<Rightarrow> (nat \<times> nat) list \<times> match \<Rightarrow> match" where
  "scan_is a b blo bhi [] (j2len, best) = best"
| "scan_is a b blo bhi (i # rest) (j2len, best) =
     scan_is a b blo bhi rest (scan_js i blo bhi j2len (b2j b (a ! i)) ([], best))"

text \<open>The two loops that extend the best match by non-junk elements.\<close>

function extend_left :: "string \<Rightarrow> string \<Rightarrow> nat \<Rightarrow> nat \<Rightarrow> match \<Rightarrow> match" where
  "extend_left a b alo blo (besti, bestj, bestsize) =
     (if alo < besti \<and> blo < bestj \<and> a ! (besti - 1) = b ! (bestj - 1)
      then extend_left a b alo blo (besti - 1, bestj - 1, bestsize + 1)
      else (besti, bestj, bestsize))"
  by pat_completeness auto
termination
  by (relation "measure (\<lambda>(a, b, alo, blo, besti, bestj, bestsize). besti)") auto

function extend_right :: "string \<Rightarrow> string \<Rightarrow> nat \<Rightarrow> nat \<Rightarrow> match \<Rightarrow> match" where
  "extend_right a b ahi bhi (besti, bestj, bestsize) =
     (if besti + bestsize < ahi \<and> bestj + bestsize < bhi
         \<and> a ! (besti + bestsize) = b ! (bestj + bestsize)
      then extend_right a b ahi bhi (besti, bestj, bestsize + 1)
      else (besti, bestj, bestsize))"
  by pat_completeness auto
termination
  by (relation "measure (\<lambda>(a, b, ahi, bhi, besti, bestj, bestsize). ahi - (besti + bestsize))") auto

definition find_longest_match :: "string \<Rightarrow> string \<Rightarrow> nat \<Rightarrow> nat \<Rightarrow> nat \<Rightarrow> nat \<Rightarrow> match" where
  "find_longest_match a b alo ahi blo bhi =
     extend_right a b ahi bhi
       (extend_left a b alo blo
          (scan_is a b blo bhi [alo ..< ahi] ([], (alo, blo, 0))))"

text \<open>
  The total size of the blocks of \<open>get_matching_blocks\<close>: the longest match of the
  range, then the ranges to its left and to its right. The block found always lies in
  the range it was searched in; the recursion states this, so that its termination is
  plain.
\<close>

function matched :: "string \<Rightarrow> string \<Rightarrow> nat \<Rightarrow> nat \<Rightarrow> nat \<Rightarrow> nat \<Rightarrow> nat" where
  "matched a b alo ahi blo bhi =
     (case find_longest_match a b alo ahi blo bhi of
        (i, j, k) \<Rightarrow>
          if k = 0 \<or> i < alo \<or> ahi < i + k then 0
          else k + (if alo < i \<and> blo < j then matched a b alo i blo j else 0)
                 + (if i + k < ahi \<and> j + k < bhi then matched a b (i + k) ahi (j + k) bhi else 0))"
  by pat_completeness auto
termination
  by (relation "measure (\<lambda>(a, b, alo, ahi, blo, bhi). ahi - alo)") auto

text \<open>\<open>SequenceMatcher(None, a, b).ratio()\<close>\<close>

definition ratio :: "string \<Rightarrow> string \<Rightarrow> rat" where
  "ratio a b =
     (if length a + length b = 0 then 1
      else of_nat (2 * matched a b 0 (length a) 0 (length b)) / of_nat (length a + length b))"

text \<open>
  \<open>get_close_matches(word, possibilities, n=1, cutoff)\<close>: the possibility \<open>x\<close> with the
  greatest pair (ratio, \<open>x\<close>) among those whose ratio is at least the cutoff; the
  matcher has \<open>word\<close> as its second sequence. The two quick ratios are upper bounds
  of the ratio, so their tests pass whenever the test of the ratio does.
\<close>

definition pair_less :: "rat \<times> string \<Rightarrow> rat \<times> string \<Rightarrow> bool" where
  "pair_less p q = (fst p < fst q \<or> (fst p = fst q \<and> snd p < snd q))"

fun nlargest1 :: "(rat \<times> string) option \<Rightarrow> (rat \<times> string) list \<Rightarrow> (rat \<times> string) option" where
  "nlargest1 best [] = best"
| "nlargest1 None (p # ps) = nlargest1 (Some p) ps"
| "nlargest1 (Some m) (p # ps) = nlargest1 (if pair_less m p then Some p else Some m) ps"

definition get_close_matches :: "string \<Rightarrow> string list \<Rightarrow> rat \<Rightarrow> string list" where
  "get_close_matches word possibilities cutoff =
     (case nlargest1 None
             (map (\<lambda>x. (ratio x word, x)) (filter (\<lambda>x. cutoff \<le> ratio x word) possibilities)) of
        None \<Rightarrow> []
      | Some (score, x) \<Rightarrow> [x])"

section \<open>Spelling correction\<close>

definition EXPENSE_VOCABULARY :: "string list" where
  "EXPENSE_VOCABULARY =
     [''petrol'', ''diesel'', ''food'', ''lunch'', ''dinner'', ''breakfast'', ''travel'',
      ''taxi'', ''cab'', ''uber'', ''ola'', ''hotel'', ''transport'', ''fuel'', ''gas'',
      ''restaurant'', ''cafe'', ''coffee'', ''snacks'', ''groceries'', ''stationery'',
      ''office'', ''supplies'', ''equipment'', ''maintenance'', ''repair'', ''service'',
      ''internet'', ''phone'', ''mobile'', ''utility'', ''electricity'', ''water'',
      ''rent'', ''salary'', ''medical'', ''medicine'', ''doctor'', ''hospital'',
      ''insurance'', ''premium'', ''subscription'', ''software'', ''license'',
      ''training'', ''workshop'', ''seminar'', ''conference'', ''meeting'',
      ''entertainment'', ''movie'', ''cinema'', ''parking'', ''toll'', ''ticket'',
      ''flight'', ''train'', ''bus'', ''metro'', ''shopping'', ''gift'', ''donation'',
      ''pertol'', ''petrole'', ''petrol'',
      ''GST'', ''GST eligible'', ''GST rate'', ''GST amount'', ''GST tax'', ''GST vat'',
      ''gst'', ''tax'', ''vat'', ''rate'', ''amount'', ''cost'', ''price'', ''bill'', ''invoice'',
      ''receipt'', ''total'', ''sum'', ''expense'', ''expenses'']"

definition TYPO_CORRECTIONS :: "(string \<times> string) list" where
  "TYPO_CORRECTIONS =
     [(''pertol'', ''petrol''), (''petrole'', ''petrol''), (''petrol'', ''petrol'')]"

text \<open>The loop over the cutoffs 0.75, 0.70 and 0.65 of \<open>_correct_spelling\<close>.\<close>

fun try_cutoffs :: "string \<Rightarrow> string list \<Rightarrow> rat list \<Rightarrow> string option" where
  "try_cutoffs word_lower vocabulary [] = None"
| "try_cutoffs word_lower vocabulary (cutoff # cutoffs) =
     (case get_close_matches word_lower vocabulary cutoff of
        [] \<Rightarrow> try_cutoffs word_lower vocabulary cutoffs
      | m # _ \<Rightarrow>
          if 7 / 10 \<le> ratio word_lower m
          then Some (if word_lower = ''pertol'' \<and> m = ''petrol'' then ''petrol'' else m)
          else try_cutoffs word_lower vocabulary cutoffs)"

text \<open>The loop over the vocabulary that accepts a substring or a superstring.\<close>

fun try_substrings :: "string \<Rightarrow> string list \<Rightarrow> string option" where
  "try_substrings word_lower [] = None"
| "try_substrings word_lower (vocab_word # rest) =
     (if (str_in word_lower vocab_word \<or> str_in vocab_word word_lower)
         \<and> 7 / 10 \<le> ratio word_lower vocab_word
      then Some vocab_word
      else try_substrings word_lower rest)"

definition correct_spelling :: "string \<Rightarrow> string list option \<Rightarrow> string" where
  "correct_spelling word vocabulary_arg =
     (let vocabulary = (case vocabulary_arg of None \<Rightarrow> EXPENSE_VOCABULARY | Some v \<Rightarrow> v);
          word_lower = lower word
      in if length word < 2 then word
         else if map_of TYPO_CORRECTIONS word_lower \<noteq> None
           then the (map_of TYPO_CORRECTIONS word_lower)
         else if word_lower \<in> set vocabulary then word_lower
         else if try_cutoffs word_lower vocabulary [3 / 4, 7 / 10, 13 / 20] \<noteq> None
           then the (try_cutoffs word_lower vocabulary [3 / 4, 7 / 10, 13 / 20])
         else if 4 < length word_lower \<and> try_substrings word_lower vocabulary \<noteq> None
           then the (try_substrings word_lower vocabulary)
         else word_lower)"

definition normalize_query :: "string \<Rightarrow> string" where
  "normalize_query query =
     join '' '' (map (\<lambda>word. correct_spelling word None) (words_of (lower query)))"

section \<open>The records of the database\<close>

record date =
  d_year :: int
  d_month :: nat
  d_day :: nat

record user =
  u_id :: int
  u_full_name :: "string option"

record expense =
  e_id :: int
  e_user_id :: int
  e_date :: "date option"
  e_amount :: rat
  e_label :: string
  e_item :: string
  e_category :: string
  e_description :: "string option"
  e_status :: string
  e_gst_eligible :: bool
  e_gst_amount :: rat

record gst_claim =
  g_id :: int
  g_user_id :: int
  g_vendor :: string
  g_amount :: rat
  g_category :: string
  g_gst_rate :: rat
  g_gst_amount :: rat
  g_status :: string
  g_created_at :: "date option"

text \<open>The rows of the table \<open>embeddings\<close>; the vector is kept abstract.\<close>

record 'v embedding =
  emb_expense_id :: "int option"
  emb_item_type :: "string option"
  emb_item_id :: "int option"
  emb_text :: string
  emb_vector :: 'v

record 'v database =
  users :: "user list"
  expenses :: "expense list"
  gst_claims :: "gst_claim list"
  embeddings :: "'v embedding list"

text \<open>\<open>db.query(Expense).filter(Expense.id == item_id).first()\<close>, and the same for a claim.\<close>

definition get_expense :: "'v database \<Rightarrow> int \<Rightarrow> expense option" where
  "get_expense db item_id = find (\<lambda>e. e_id e = item_id) (expenses db)"

definition get_gst_claim :: "'v database \<Rightarrow> int \<Rightarrow> gst_claim option" where
  "get_gst_claim db item_id = find (\<lambda>g. g_id g = item_id) (gst_claims db)"

text \<open>\<open>record.user.full_name\<close> when the record has a user with a non-empty full name.\<close>

definition user_full_name :: "'v database \<Rightarrow> int \<Rightarrow> string option" where
  "user_full_name db uid =
     (case find (\<lambda>u. u_id u = uid) (users db) of
        None \<Rightarrow> None
      | Some u \<Rightarrow> (if u_full_name u = Some [] then None else u_full_name u))"

section \<open>The query normalizer\<close>

text \<open>
  What the search service takes from outside the source: the current year
  (\<open>datetime.now().year\<close>), the order in which \<open>list(set(vocabulary))\<close> lists the
  vocabulary (CPython's hash order), and the search of the vector index, which returns
  triples (item type, item id, similarity) for a query text and a number \<open>k\<close>.
\<close>

record env =
  now_year :: int
  set_order :: "string list \<Rightarrow> string list"
  index_search :: "string \<Rightarrow> int \<Rightarrow> (string \<times> int \<times> rat) list"

definition date_words :: "string list" where
  "date_words =
     [''jan'', ''january'', ''feb'', ''february'', ''mar'', ''march'', ''apr'', ''april'',
      ''may'', ''jun'', ''june'', ''jul'', ''july'', ''aug'', ''august'', ''sep'', ''september'',
      ''oct'', ''october'', ''nov'', ''november'', ''dec'', ''december'']"

definition stopwords :: "string list" where
  "stopwords =
     [''what'', ''is'', ''are'', ''was'', ''were'', ''the'', ''a'', ''an'', ''of'',
      ''to'', ''on'', ''at'', ''with'', ''by'', ''from'', ''about'', ''how'', ''much'',
      ''did'', ''i'', ''spend'', ''show'', ''me'', ''find'', ''search'', ''list'']"

text \<open>\<open>r'\bfor\s+([A-Za-z][a-z]+(?:\s+[A-Za-z][a-z]+)?)\b'\<close> under \<open>re.IGNORECASE\<close>\<close>

definition person_pattern :: "string \<Rightarrow> string list" where
  "person_pattern s =
     findall (Seq Bnd (lit_i ''for'' (Many is_space 1)))
       (Seq (Cls is_alpha) (Seq (Many is_alpha 1)
          (Opt (Seq (Many is_space 1) (Seq (Cls is_alpha) (Many is_alpha 1))))))
       Bnd s"

text \<open>\<open>r'\b[A-Z][a-z]+\b'\<close>\<close>

definition capitalized_pattern :: "string \<Rightarrow> string list" where
  "capitalized_pattern s = findall Bnd (Seq (Cls is_upper) (Many is_lower 1)) Bnd s"

text \<open>\<open>r'\bfor\s+([a-z]{3,})\b'\<close>\<close>

definition for_lower_pattern :: "string \<Rightarrow> string list" where
  "for_lower_pattern s = findall (Seq Bnd (lit ''for'' (Many is_space 1))) (Many is_lower 3) Bnd s"

text \<open>\<open>r'\b(.+?)\s+expense\b'\<close> and \<open>r'\bexpense\s+(.+?)\b'\<close>\<close>

definition expense_patterns :: "(string \<Rightarrow> string list) list" where
  "expense_patterns =
     [findall Bnd (Few is_dot 1) (Seq (Many is_space 1) (lit ''expense'' Bnd)),
      findall (Seq Bnd (lit ''expense'' (Many is_space 1))) (Few is_dot 1) Bnd]"

text \<open>\<open>r'"([^"]+)"'\<close>\<close>

definition quoted_pattern :: "string \<Rightarrow> string list" where
  "quoted_pattern s =
     findall (Cls (\<lambda>c. code c = 34)) (Many (\<lambda>c. code c \<noteq> 34) 1) (Cls (\<lambda>c. code c = 34)) s"

text \<open>The loop that adds the capitalized words of the query to the person names.\<close>

fun add_capitalized :: "string list \<Rightarrow> string list \<Rightarrow> string list" where
  "add_capitalized person_names [] = person_names"
| "add_capitalized person_names (word # rest) =
     add_capitalized
       (if lower word \<notin> set date_words \<and> lower word \<notin> set stopwords \<and> 2 < length word
           \<and> word \<notin> set person_names
        then person_names @ [word] else person_names)
       rest"

text \<open>The loop that adds the lower-case words after \<open>for\<close>.\<close>

fun add_for_lower :: "string list \<Rightarrow> string list \<Rightarrow> string list" where
  "add_for_lower person_names [] = person_names"
| "add_for_lower person_names (m # rest) =
     add_for_lower
       (if m \<notin> set date_words \<and> m \<notin> set stopwords \<and> m \<notin> set (map lower person_names)
        then person_names @ [capitalize m] else person_names)
       rest"

text \<open>The phrases of one expense pattern.\<close>

definition phrases_of_matches :: "string list \<Rightarrow> string list" where
  "phrases_of_matches ms =
     map (join '' '')
       (filter (\<lambda>match_words. 2 \<le> length match_words)
          (map (\<lambda>m. filter (\<lambda>w. w \<notin> set stopwords \<and> w \<notin> set date_words) (words_of m)) ms))"

text \<open>
  The vocabulary read from the database: the distinct categories, at most 100 distinct
  labels and at most 100 distinct items, lower-cased, and the words of those items.
\<close>

definition db_vocabulary :: "'v database \<Rightarrow> string list" where
  "db_vocabulary db =
     (let categories = remdups (map e_category (expenses db));
          labels = take 100 (remdups (map e_label (expenses db)));
          items = take 100 (remdups (map e_item (expenses db)))
      in map lower (filter (\<lambda>x. x \<noteq> []) categories)
         @ map lower (filter (\<lambda>x. x \<noteq> []) labels)
         @ map lower (filter (\<lambda>x. x \<noteq> []) items)
         @ concat (map (\<lambda>x. words_of (lower x)) (filter (\<lambda>x. x \<noteq> []) items)))"

definition db_person_names :: "'v database \<Rightarrow> string list" where
  "db_person_names db =
     concat (map (\<lambda>u. case u_full_name u of None \<Rightarrow> [] | Some n \<Rightarrow> (if n = [] then [] else [n]))
               (users db))"

record keyword_data =
  kd_keywords :: "string list"
  kd_person_names :: "string list"
  kd_phrases :: "string list"
  kd_person_names_from_db :: "string list"

definition extract_keywords :: "env \<Rightarrow> string \<Rightarrow> 'v database option \<Rightarrow> keyword_data" where
  "extract_keywords env query db =
     (let query_lower = lower query;
          person_names0 = filter (\<lambda>m. 2 < length m) (person_pattern query);
          person_names1 = add_capitalized person_names0 (capitalized_pattern query);
          person_names2 = add_for_lower person_names1 (for_lower_pattern query_lower);
          words = words_of query_lower;
          person_names_lower = map lower person_names2;
          kws = filter (\<lambda>w. w \<notin> set date_words \<and> w \<notin> set stopwords \<and> 2 < length w
                            \<and> w \<notin> set person_names_lower) words;
          phrs = concat (map (\<lambda>pattern. phrases_of_matches (pattern query_lower)) expense_patterns)
                 @ quoted_pattern query_lower;
          vocabulary = (case db of
                          None \<Rightarrow> EXPENSE_VOCABULARY
                        | Some d \<Rightarrow> set_order env (EXPENSE_VOCABULARY @ db_vocabulary d))
      in \<lparr> kd_keywords = map (\<lambda>kw. correct_spelling kw (Some vocabulary)) kws,
           kd_person_names = person_names2,
           kd_phrases = phrs,
           kd_person_names_from_db = (case db of None \<Rightarrow> [] | Some d \<Rightarrow> db_person_names d) \<rparr>)"

definition month_map :: "(string \<times> nat) list" where
  "month_map =
     [(''jan'', 1), (''january'', 1), (''feb'', 2), (''february'', 2), (''mar'', 3), (''march'', 3),
      (''apr'', 4), (''april'', 4), (''may'', 5), (''jun'', 6), (''june'', 6), (''jul'', 7),
      (''july'', 7), (''aug'', 8), (''august'', 8), (''sep'', 9), (''september'', 9),
      (''oct'', 10), (''october'', 10), (''nov'', 11), (''november'', 11), (''dec'', 12),
      (''december'', 12)]"

text \<open>\<open>int(s)\<close> for a string of decimal digits.\<close>

definition int_of_digits :: "string \<Rightarrow> nat" where
  "int_of_digits s = foldl (\<lambda>n c. 10 * n + (code c - 48)) 0 s"

text \<open>The first key of the month map that occurs in the query.\<close>

fun first_month :: "(string \<times> nat) list \<Rightarrow> string \<Rightarrow> nat option" where
  "first_month [] query_lower = None"
| "first_month ((key, month_num) # rest) query_lower =
     (if str_in key query_lower then Some month_num else first_month rest query_lower)"

text \<open>\<open>r'\b(1[0-2]|[1-9])\b'\<close>\<close>

definition month_number_pattern :: "string \<Rightarrow> string option" where
  "month_number_pattern s =
     search_group Bnd
       (Alt (Seq (Cls (\<lambda>c. code c = 49)) (Cls (\<lambda>c. 48 \<le> code c \<and> code c \<le> 50)))
            (Cls (\<lambda>c. 49 \<le> code c \<and> code c \<le> 57)))
       Bnd s"

definition extract_month_from_query :: "string \<Rightarrow> nat option" where
  "extract_month_from_query query =
     (case first_month month_map (lower query) of
        Some month_num \<Rightarrow> Some month_num
      | None \<Rightarrow> map_option int_of_digits (month_number_pattern query))"

text \<open>\<open>r'\b(20\d{2})\b'\<close>\<close>

definition year_pattern :: "string \<Rightarrow> string option" where
  "year_pattern s =
     search_group Bnd (lit ''20'' (Seq (Cls is_digit) (Cls is_digit))) Bnd s"

definition extract_year_from_query :: "env \<Rightarrow> string \<Rightarrow> int" where
  "extract_year_from_query env query =
     (case year_pattern query of
        Some y \<Rightarrow> int (int_of_digits y)
      | None \<Rightarrow> now_year env)"

section \<open>The ranking and filtering engine\<close>

record result =
  r_id :: int
  r_type :: string
  r_label :: string
  r_item :: string
  r_amount :: rat
  r_gst_amount :: "rat option"
  r_category :: string
  r_status :: string
  similarity_score :: rat

text \<open>The values that \<open>semantic_search\<close> computes from the query before its loop.\<close>

record query_context =
  normalized_query :: string
  c_keywords :: "string list"
  c_person_names :: "string list"
  c_phrases :: "string list"
  c_person_names_from_db :: "string list"
  c_month :: "nat option"
  c_year :: int
  is_gst_query :: bool
  has_specific_item_keyword :: bool
  specific_item_keywords :: "string list"

text \<open>The four lists that the loop of \<open>semantic_search\<close> appends to.\<close>

record buckets =
  results :: "result list"
  keyword_matched_results :: "result list"
  date_keyword_matched_results :: "result list"
  gst_results_from_embedding :: "result list"

definition excluded_words :: "string list" where
  "excluded_words =
     [''expense'', ''expenses'', ''in'', ''nov'', ''november'', ''dec'', ''december'',
      ''jan'', ''january'', ''feb'', ''february'', ''mar'', ''march'', ''apr'', ''april'',
      ''may'', ''jun'', ''june'', ''jul'', ''july'', ''aug'', ''august'', ''sep'', ''september'',
      ''oct'', ''october'', ''for'', ''the'', ''a'', ''an'', ''at'', ''of'', ''on'', ''with'', ''from'']"

definition gst_terms :: "string list" where
  "gst_terms = [''gst'', ''tax'', ''vat'', ''gst eligible'']"

text \<open>\<open>any(term in query.lower() for term in ['gst', 'tax', 'vat', 'gst eligible'])\<close>\<close>

definition gst_query :: "string \<Rightarrow> bool" where
  "gst_query query = list_ex (\<lambda>term. str_in term (lower query)) gst_terms"

text \<open>The keywords that are not excluded words and are longer than two characters.\<close>

definition specific_keywords :: "string list \<Rightarrow> string list" where
  "specific_keywords kws =
     filter (\<lambda>keyword_lower. keyword_lower \<notin> set excluded_words \<and> 2 < length keyword_lower)
       (map lower kws)"

definition query_context_of :: "env \<Rightarrow> 'v database \<Rightarrow> string \<Rightarrow> query_context" where
  "query_context_of env db query =
     (let keyword_data = extract_keywords env query (Some db)
      in \<lparr> normalized_query = normalize_query query,
           c_keywords = kd_keywords keyword_data,
           c_person_names = kd_person_names keyword_data,
           c_phrases = kd_phrases keyword_data,
           c_person_names_from_db = kd_person_names_from_db keyword_data,
           c_month = extract_month_from_query query,
           c_year = extract_year_from_query env query,
           is_gst_query = gst_query query,
           has_specific_item_keyword = (specific_keywords (kd_keywords keyword_data) \<noteq> []),
           specific_item_keywords = specific_keywords (kd_keywords keyword_data) \<rparr>)"

text \<open>The truth value of an optional number: neither \<open>None\<close> nor zero.\<close>

definition truthy :: "'a::zero option \<Rightarrow> bool" where
  "truthy x = (case x of None \<Rightarrow> False | Some v \<Rightarrow> v \<noteq> 0)"

definition gst_flag :: "expense \<Rightarrow> bool" where
  "gst_flag expense = (e_gst_eligible expense \<or> 0 < e_gst_amount expense)"

definition expense_text :: "'v database \<Rightarrow> expense \<Rightarrow> string" where
  "expense_text db expense =
     (let expense_text_parts =
            [lower (e_label expense), lower (e_item expense), lower (e_category expense)]
            @ (case e_description expense of
                 None \<Rightarrow> []
               | Some d \<Rightarrow> (if d = [] then [] else [lower d]))
            @ (case user_full_name db (e_user_id expense) of
                 None \<Rightarrow> []
               | Some n \<Rightarrow> [lower n]);
          text = join '' '' expense_text_parts
      in if gst_flag expense then text @ '' gst tax gst-eligible'' else text)"

definition person_name_matches :: "query_context \<Rightarrow> 'v database \<Rightarrow> expense \<Rightarrow> bool" where
  "person_name_matches ctx db expense =
     list_ex (\<lambda>person_name.
        let person_lower = lower person_name in
        str_in person_lower (expense_text db expense)
        \<or> list_ex (\<lambda>db_name.
              (str_in person_lower (lower db_name) \<or> str_in (lower db_name) person_lower)
              \<and> (case user_full_name db (e_user_id expense) of
                    None \<Rightarrow> False
                  | Some n \<Rightarrow> str_in person_lower (lower n)))
            (c_person_names_from_db ctx))
       (c_person_names ctx)"

definition phrase_matches :: "query_context \<Rightarrow> 'v database \<Rightarrow> expense \<Rightarrow> bool" where
  "phrase_matches ctx db expense =
     (let expense_words = words_of (expense_text db expense) in
      list_ex (\<lambda>phrase.
         let phrase_lower = lower phrase in
         str_in phrase_lower (expense_text db expense)
         \<and> list_all (\<lambda>word. list_ex (\<lambda>exp_word. str_in word exp_word \<or> str_in exp_word word)
                                  expense_words)
              (split phrase_lower))
        (c_phrases ctx))"

definition keyword_matches :: "query_context \<Rightarrow> 'v database \<Rightarrow> expense \<Rightarrow> bool" where
  "keyword_matches ctx db expense =
     (let expense_words = words_of (expense_text db expense) in
      list_ex (\<lambda>keyword.
         str_in keyword (expense_text db expense) \<or> keyword \<in> set expense_words
         \<or> list_ex (\<lambda>exp_word. 7 / 10 \<le> ratio keyword exp_word) expense_words)
        (c_keywords ctx))"

definition keyword_found_in_expense :: "query_context \<Rightarrow> expense \<Rightarrow> bool" where
  "keyword_found_in_expense ctx expense =
     list_ex (\<lambda>item_keyword. str_in item_keyword (lower (e_label expense))
                            \<or> str_in item_keyword (lower (e_item expense)))
       (specific_item_keywords ctx)"

definition expense_result_data :: "expense \<Rightarrow> rat \<Rightarrow> result" where
  "expense_result_data expense score =
     \<lparr> r_id = e_id expense, r_type = ''expense'', r_label = e_label expense,
       r_item = e_item expense, r_amount = e_amount expense, r_gst_amount = None,
       r_category = e_category expense, r_status = e_status expense,
       similarity_score = score \<rparr>"

text \<open>
  \<open>process_expense_result\<close>: every \<open>return\<close> before the end leaves the lists as they
  are. The \<open>else\<close> of the date test belongs to \<open>if month and expense.date\<close>.
\<close>

definition process_expense_result ::
  "query_context \<Rightarrow> 'v database \<Rightarrow> expense \<Rightarrow> rat \<Rightarrow> buckets \<Rightarrow> buckets" where
  "process_expense_result ctx db expense similarity bk =
     (let person_name_match = person_name_matches ctx db expense;
          phrase_match = phrase_matches ctx db expense;
          keyword_match = keyword_matches ctx db expense;
          gst_match = (is_gst_query ctx \<and> gst_flag expense);
          boost1 = (if c_person_names ctx \<noteq> [] then max 1 (3 / 2) else 1);
          boost2 = (if phrase_match then max boost1 (7 / 5) else boost1);
          boost3 = (if keyword_match then max boost2 (13 / 10) else boost2);
          boost4 = (if is_gst_query ctx \<and> gst_match then max boost3 (13 / 10) else boost3);
          exact_keyword_match =
            (has_specific_item_keyword ctx \<and> keyword_found_in_expense ctx expense);
          boost5 = (if exact_keyword_match then max boost4 2 else boost4)
      in
      if is_gst_query ctx \<and> \<not> gst_flag expense then bk
      else if has_specific_item_keyword ctx \<and> \<not> keyword_found_in_expense ctx expense then bk
      else if \<not> (truthy (c_month ctx) \<and> e_date expense \<noteq> None) then bk
      else
        let boost6 = (if Some (d_month (the (e_date expense))) = c_month ctx
                         \<and> d_year (the (e_date expense)) = c_year ctx
                      then max boost5 (6 / 5) else boost5);
            date_match = True;
            no_hints = (c_person_names ctx = [] \<and> c_phrases ctx = [] \<and> c_keywords ctx = []
                        \<and> \<not> is_gst_query ctx);
            match_score_boost = (if \<not> exact_keyword_match \<and> no_hints then 1 else boost6)
        in
        if \<not> exact_keyword_match \<and> no_hints \<and> similarity < 3 / 10 then bk
        else if \<not> exact_keyword_match \<and> \<not> no_hints \<and> similarity < 4 / 10 then bk
        else
          let result_data = expense_result_data expense (similarity * match_score_boost) in
          if date_match \<and> (keyword_match \<or> phrase_match \<or> person_name_match \<or> gst_match)
          then bk\<lparr>date_keyword_matched_results := date_keyword_matched_results bk @ [result_data]\<rparr>
          else if keyword_match \<or> phrase_match \<or> person_name_match \<or> gst_match
          then bk\<lparr>keyword_matched_results := keyword_matched_results bk @ [result_data]\<rparr>
          else if \<not> is_gst_query ctx \<or> gst_match
          then bk\<lparr>results := results bk @ [result_data]\<rparr>
          else bk)"

definition gst_text :: "'v database \<Rightarrow> gst_claim \<Rightarrow> string" where
  "gst_text db gst_claim =
     join '' '' [lower (g_vendor gst_claim), lower (g_category gst_claim)]
     @ '' gst tax vat gst-eligible gst-claim''
     @ (case user_full_name db (g_user_id gst_claim) of
          None \<Rightarrow> []
        | Some n \<Rightarrow> '' '' @ lower n)"

definition gst_result_data :: "gst_claim \<Rightarrow> rat \<Rightarrow> result" where
  "gst_result_data gst_claim score =
     \<lparr> r_id = g_id gst_claim, r_type = ''gst_claim'',
       r_label = ''GST Claim: '' @ g_vendor gst_claim, r_item = g_vendor gst_claim,
       r_amount = g_amount gst_claim, r_gst_amount = Some (g_gst_amount gst_claim),
       r_category = g_category gst_claim, r_status = g_status gst_claim,
       similarity_score = score \<rparr>"

text \<open>The branch of the loop for a claim, after the filters of the caller.\<close>

definition process_gst_result ::
  "query_context \<Rightarrow> 'v database \<Rightarrow> gst_claim \<Rightarrow> rat \<Rightarrow> buckets \<Rightarrow> buckets" where
  "process_gst_result ctx db gst_claim similarity bk =
     (let text = gst_text db gst_claim;
          gst_words = words_of text;
          phrase_match = list_ex (\<lambda>phrase. str_in (lower phrase) text) (c_phrases ctx);
          keyword_match =
            (is_gst_query ctx
             \<or> list_ex (\<lambda>keyword. str_in keyword text \<or> keyword \<in> set gst_words) (c_keywords ctx));
          overall_match =
            (if c_phrases ctx \<noteq> [] then phrase_match \<or> keyword_match
             else if c_keywords ctx \<noteq> [] then keyword_match
             else True);
          boost0 =
            (if c_phrases ctx \<noteq> [] then (if phrase_match then 7 / 5 else 1)
             else if c_keywords ctx \<noteq> [] then (if keyword_match then 13 / 10 else 1)
             else if is_gst_query ctx then 3 / 2
             else 1);
          dated = (truthy (c_month ctx) \<and> g_created_at gst_claim \<noteq> None);
          same_month = (Some (d_month (the (g_created_at gst_claim))) = c_month ctx
                        \<and> d_year (the (g_created_at gst_claim)) = c_year ctx);
          date_match = (\<not> dated \<or> same_month);
          match_score_boost = (if dated \<and> same_month then max boost0 (6 / 5) else boost0);
          gst_result = gst_result_data gst_claim (similarity * match_score_boost)
      in
      if \<not> overall_match then bk
      else if similarity < 3 / 10 then bk
      else if dated \<and> \<not> same_month \<and> similarity < 7 / 10 then bk
      else if date_match \<and> overall_match
      then bk\<lparr>date_keyword_matched_results := date_keyword_matched_results bk @ [gst_result]\<rparr>
      else if overall_match
      then bk\<lparr>keyword_matched_results := keyword_matched_results bk @ [gst_result]\<rparr>
      else bk\<lparr>gst_results_from_embedding := gst_results_from_embedding bk @ [gst_result]\<rparr>)"

text \<open>One round of the loop over the results of the index search.\<close>

definition process_candidate ::
  "query_context \<Rightarrow> 'v database \<Rightarrow> rat option \<Rightarrow> rat option \<Rightarrow> int option
     \<Rightarrow> string \<times> int \<times> rat \<Rightarrow> buckets \<Rightarrow> buckets" where
  "process_candidate ctx db min_amount max_amount user_id cand bk =
     (case cand of (item_type, item_id, similarity) \<Rightarrow>
        if item_type = ''expense'' then
          (case get_expense db item_id of
             None \<Rightarrow> bk
           | Some expense \<Rightarrow>
               if truthy user_id \<and> Some (e_user_id expense) \<noteq> user_id then bk
               else if truthy min_amount \<and> e_amount expense < the min_amount then bk
               else if truthy max_amount \<and> the max_amount < e_amount expense then bk
               else process_expense_result ctx db expense similarity bk)
        else if item_type = ''gst_claim'' then
          (case get_gst_claim db item_id of
             None \<Rightarrow> bk
           | Some gst_claim \<Rightarrow>
               if truthy user_id \<and> Some (g_user_id gst_claim) \<noteq> user_id then bk
               else if truthy min_amount \<and> g_amount gst_claim < the min_amount then bk
               else if truthy max_amount \<and> the max_amount < g_amount gst_claim then bk
               else process_gst_result ctx db gst_claim similarity bk)
        else bk)"

fun process_candidates ::
  "query_context \<Rightarrow> 'v database \<Rightarrow> rat option \<Rightarrow> rat option \<Rightarrow> int option
     \<Rightarrow> (string \<times> int \<times> rat) list \<Rightarrow> buckets \<Rightarrow> buckets" where
  "process_candidates ctx db min_amount max_amount user_id [] bk = bk"
| "process_candidates ctx db min_amount max_amount user_id (cand # rest) bk =
     process_candidates ctx db min_amount max_amount user_id rest
       (process_candidate ctx db min_amount max_amount user_id cand bk)"

text \<open>One pass of the deduplication by (type, id).\<close>

fun dedup_pass ::
  "result list \<Rightarrow> (string \<times> int) list \<times> result list \<Rightarrow> (string \<times> int) list \<times> result list" where
  "dedup_pass [] st = st"
| "dedup_pass (result # rest) (seen_ids, deduplicated_results) =
     (if (r_type result, r_id result) \<notin> set seen_ids
      then dedup_pass rest
             ((r_type result, r_id result) # seen_ids, deduplicated_results @ [result])
      else dedup_pass rest (seen_ids, deduplicated_results))"

definition deduplicate :: "buckets \<Rightarrow> result list" where
  "deduplicate bk =
     snd (dedup_pass (results bk @ gst_results_from_embedding bk)
            (dedup_pass (keyword_matched_results bk)
               (dedup_pass (date_keyword_matched_results bk) ([], []))))"

text \<open>\<open>list.sort(key=lambda x: x['similarity_score'], reverse=True)\<close>: a stable sort,
  results of equal score keep their order.\<close>

definition sort_by_score :: "result list \<Rightarrow> result list" where
  "sort_by_score rs = sort_key (\<lambda>r. - similarity_score r) rs"

text \<open>The slice \<open>xs[:n]\<close>; a negative \<open>n\<close> counts from the end.\<close>

definition slice_to :: "int \<Rightarrow> 'a list \<Rightarrow> 'a list" where
  "slice_to n xs = (if 0 \<le> n then take (nat n) xs else take (length xs - nat (- n)) xs)"

record search_response =
  sr_query :: string
  total_results :: nat
  sr_results :: "result list"

definition empty_buckets :: buckets where
  "empty_buckets =
     \<lparr> results = [], keyword_matched_results = [], date_keyword_matched_results = [],
       gst_results_from_embedding = [] \<rparr>"

text \<open>The lists after the loop over the results of the index search.\<close>

definition search_buckets ::
  "env \<Rightarrow> 'v database \<Rightarrow> string \<Rightarrow> int \<Rightarrow> rat option \<Rightarrow> rat option \<Rightarrow> int option \<Rightarrow> buckets" where
  "search_buckets env db query limit min_amount max_amount user_id =
     (let ctx = query_context_of env db query;
          search_k = (if has_specific_item_keyword ctx then limit * 10 else limit * 5);
          embedding_search_results = index_search env (normalized_query ctx) search_k
      in process_candidates ctx db min_amount max_amount user_id embedding_search_results
           empty_buckets)"

definition semantic_search ::
  "env \<Rightarrow> 'v database \<Rightarrow> string \<Rightarrow> int \<Rightarrow> rat option \<Rightarrow> rat option \<Rightarrow> int option
     \<Rightarrow> search_response" where
  "semantic_search env db query limit min_amount max_amount user_id =
     (let ctx = query_context_of env db query;
          deduplicated_results =
            sort_by_score
              (deduplicate (search_buckets env db query limit min_amount max_amount user_id));
          final_results =
            (if has_specific_item_keyword ctx then deduplicated_results
             else slice_to (if c_keywords ctx \<noteq> [] \<or> c_phrases ctx \<noteq> [] then limit * 3 else limit)
                    deduplicated_results)
      in \<lparr> sr_query = query, total_results = length final_results, sr_results = final_results \<rparr>)"

section \<open>The embedding service\<close>

text \<open>
  The sentence-transformer model and the printing of floats are taken from outside the
  source: \<open>encode\<close> is \<open>None\<close> where \<open>model.encode\<close> raises, \<open>str_float\<close> is \<open>str\<close>
  on a float. A stored vector is kept as the value it parses to. The statements of
  \<open>_ensure_schema\<close> that alter the table are not modelled, only its flag.
\<close>

datatype error = EmbeddingModelError

record 'v embedder =
  encode :: "string \<Rightarrow> 'v option"
  str_float :: "rat \<Rightarrow> string"

record 'v service =
  index :: "'v list"
  id_map :: "nat \<Rightarrow> (string \<times> int option) option"
  schema_ready :: bool

definition new_service :: "'v service" where
  "new_service = \<lparr> index = [], id_map = (\<lambda>slot. None), schema_ready = False \<rparr>"

definition month_names :: "string list" where
  "month_names =
     [''January'', ''February'', ''March'', ''April'', ''May'', ''June'', ''July'',
      ''August'', ''September'', ''October'', ''November'', ''December'']"

text \<open>\<open>%B\<close>, \<open>%b\<close>, \<open>%m\<close> and \<open>%d\<close>, \<open>%Y\<close> of \<open>strftime\<close>.\<close>

definition full_month :: "nat \<Rightarrow> string" where
  "full_month m = (if 1 \<le> m \<and> m \<le> 12 then month_names ! (m - 1) else [])"

definition abbr_month :: "nat \<Rightarrow> string" where
  "abbr_month m = take 3 (full_month m)"

function str_nat :: "nat \<Rightarrow> string" where
  "str_nat n =
     (if n < 10 then [char_of (48 + n)] else str_nat (n div 10) @ [char_of (48 + n mod 10)])"
  by pat_completeness auto
termination
  by (relation "measure (\<lambda>n. n)") auto

definition pad2 :: "nat \<Rightarrow> string" where
  "pad2 n = (if n < 10 then ''0'' @ str_nat n else str_nat n)"

definition year_str :: "int \<Rightarrow> string" where
  "year_str y = str_nat (nat y)"

definition date_parts :: "date option \<Rightarrow> string list" where
  "date_parts date_opt =
     (case date_opt of
        None \<Rightarrow> []
      | Some d \<Rightarrow>
          [full_month (d_month d) @ '' '' @ year_str (d_year d),
           abbr_month (d_month d) @ '' '' @ year_str (d_year d),
           pad2 (d_month d) @ '' '' @ year_str (d_year d),
           pad2 (d_day d) @ '' '' @ full_month (d_month d)])"

definition generate_text :: "'v embedder \<Rightarrow> expense \<Rightarrow> string" where
  "generate_text em expense =
     (let date_str = join '' '' (date_parts (e_date expense));
          text = e_label expense @ '' '' @ e_item expense @ '' '' @ e_category expense @ '' ''
                 @ date_str @ '' '' @ str_float em (e_amount expense) @ '' rupees''
      in case e_description expense of
           None \<Rightarrow> text
         | Some d \<Rightarrow> (if d = [] then text else text @ '' '' @ d))"

definition generate_gst_text :: "'v embedder \<Rightarrow> 'w database \<Rightarrow> gst_claim \<Rightarrow> string" where
  "generate_gst_text em db gst_claim =
     (let date_str = join '' '' (date_parts (g_created_at gst_claim));
          text = g_vendor gst_claim @ '' '' @ g_category gst_claim @ '' '' @ date_str @ '' ''
                 @ str_float em (g_amount gst_claim) @ '' rupees gst tax vat''
                 @ '' gst amount '' @ str_float em (g_gst_amount gst_claim)
                 @ '' gst rate '' @ str_float em (g_gst_rate gst_claim) @ ''%''
      in case user_full_name db (g_user_id gst_claim) of
           None \<Rightarrow> text
         | Some n \<Rightarrow> text @ '' '' @ n)"

definition ensure_schema :: "'v service \<Rightarrow> 'v service" where
  "ensure_schema svc = svc\<lparr>schema_ready := True\<rparr>"

definition add_vector_to_index :: "string \<Rightarrow> int option \<Rightarrow> 'v \<Rightarrow> 'v service \<Rightarrow> 'v service" where
  "add_vector_to_index item_type item_id embedding_vector svc =
     (let faiss_index = length (index svc)
      in svc\<lparr>index := index svc @ [embedding_vector],
             id_map := (id_map svc)(faiss_index \<mapsto> (item_type, item_id))\<rparr>)"

fun update_first :: "('a \<Rightarrow> bool) \<Rightarrow> ('a \<Rightarrow> 'a) \<Rightarrow> 'a list \<Rightarrow> 'a list" where
  "update_first P f [] = []"
| "update_first P f (x # xs) = (if P x then f x # xs else x # update_first P f xs)"

definition upsert_embedding_record ::
  "string \<Rightarrow> int \<Rightarrow> string \<Rightarrow> 'v \<Rightarrow> int option \<Rightarrow> 'v database \<Rightarrow> 'v database" where
  "upsert_embedding_record item_type item_id text_value embedding_vector expense_id db =
     (let same = (\<lambda>r. emb_item_type r = Some item_type \<and> emb_item_id r = Some item_id)
      in if list_ex same (embeddings db)
         then db\<lparr>embeddings :=
                  update_first same
                    (\<lambda>r. r\<lparr>emb_text := text_value, emb_vector := embedding_vector,
                           emb_expense_id := (if expense_id \<noteq> None then expense_id
                                              else emb_expense_id r)\<rparr>)
                    (embeddings db)\<rparr>
         else db\<lparr>embeddings := embeddings db
                  @ [\<lparr> emb_expense_id = expense_id, emb_item_type = Some item_type,
                       emb_item_id = Some item_id, emb_text = text_value,
                       emb_vector = embedding_vector \<rparr>]\<rparr>)"

text \<open>\<open>add_expense\<close> and \<open>add_gst_claim\<close>: the first component is the exception raised,
  if any; the service and the database are as the call leaves them.\<close>

definition add_expense ::
  "'v embedder \<Rightarrow> expense \<Rightarrow> 'v database \<Rightarrow> 'v service
     \<Rightarrow> error option \<times> 'v service \<times> 'v database" where
  "add_expense em expense db svc =
     (let svc1 = ensure_schema svc;
          text_value = generate_text em expense
      in case encode em text_value of
           None \<Rightarrow> (Some EmbeddingModelError, svc1, db)
         | Some embedding_vector \<Rightarrow>
             (None,
              add_vector_to_index ''expense'' (Some (e_id expense)) embedding_vector svc1,
              upsert_embedding_record ''expense'' (e_id expense) text_value embedding_vector
                (Some (e_id expense)) db))"

definition add_gst_claim ::
  "'v embedder \<Rightarrow> gst_claim \<Rightarrow> 'v database \<Rightarrow> 'v service
     \<Rightarrow> error option \<times> 'v service \<times> 'v database" where
  "add_gst_claim em gst_claim db svc =
     (let svc1 = ensure_schema svc;
          text_value = generate_gst_text em db gst_claim
      in case encode em text_value of
           None \<Rightarrow> (Some EmbeddingModelError, svc1, db)
         | Some embedding_vector \<Rightarrow>
             (None,
              add_vector_to_index ''gst_claim'' (Some (g_id gst_claim)) embedding_vector svc1,
              upsert_embedding_record ''gst_claim'' (g_id gst_claim) text_value embedding_vector
                None db))"

text \<open>The key of a row: \<open>emb.item_type or "expense"\<close> and \<open>emb.item_id or emb.expense_id\<close>.\<close>

definition existing_key :: "'v embedding \<Rightarrow> string \<times> int option" where
  "existing_key emb =
     ((case emb_item_type emb of
         None \<Rightarrow> ''expense''
       | Some t \<Rightarrow> (if t = [] then ''expense'' else t)),
      (if truthy (emb_item_id emb) then emb_item_id emb else emb_expense_id emb))"

text \<open>The two loops of \<open>_backfill_missing_embeddings\<close>; an exception of the model ends
  the backfill, the rows written before it stay.\<close>

fun backfill_expenses ::
  "'v embedder \<Rightarrow> expense list \<Rightarrow> (string \<times> int option) list \<times> 'v database
     \<Rightarrow> error option \<times> (string \<times> int option) list \<times> 'v database" where
  "backfill_expenses em [] (existing_map, db) = (None, existing_map, db)"
| "backfill_expenses em (expense # rest) (existing_map, db) =
     (if (''expense'', Some (e_id expense)) \<in> set existing_map
      then backfill_expenses em rest (existing_map, db)
      else case encode em (generate_text em expense) of
             None \<Rightarrow> (Some EmbeddingModelError, existing_map, db)
           | Some embedding_vector \<Rightarrow>
               backfill_expenses em rest
                 ((''expense'', Some (e_id expense)) # existing_map,
                  upsert_embedding_record ''expense'' (e_id expense) (generate_text em expense)
                    embedding_vector (Some (e_id expense)) db))"

fun backfill_gst_claims ::
  "'v embedder \<Rightarrow> gst_claim list \<Rightarrow> (string \<times> int option) list \<times> 'v database
     \<Rightarrow> error option \<times> (string \<times> int option) list \<times> 'v database" where
  "backfill_gst_claims em [] (existing_map, db) = (None, existing_map, db)"
| "backfill_gst_claims em (claim # rest) (existing_map, db) =
     (if (''gst_claim'', Some (g_id claim)) \<in> set existing_map
      then backfill_gst_claims em rest (existing_map, db)
      else case encode em (generate_gst_text em db claim) of
             None \<Rightarrow> (Some EmbeddingModelError, existing_map, db)
           | Some embedding_vector \<Rightarrow>
               backfill_gst_claims em rest
                 ((''gst_claim'', Some (g_id claim)) # existing_map,
                  upsert_embedding_record ''gst_claim'' (g_id claim)
                    (generate_gst_text em db claim) embedding_vector None db))"

definition backfill_missing_embeddings ::
  "'v embedder \<Rightarrow> 'v database \<Rightarrow> error option \<times> 'v database" where
  "backfill_missing_embeddings em db =
     (case backfill_expenses em (expenses db) (map existing_key (embeddings db), db) of
        (Some e, existing_map, db1) \<Rightarrow> (Some e, db1)
      | (None, existing_map, db1) \<Rightarrow>
          (case backfill_gst_claims em (gst_claims db1) (existing_map, db1) of
             (err, existing_map2, db2) \<Rightarrow> (err, db2)))"

text \<open>The type and id under which \<open>load_from_db\<close> enters a row.\<close>

definition row_key :: "'v embedding \<Rightarrow> string \<times> int option" where
  "row_key emb =
     (case emb_item_type emb of
        None \<Rightarrow> (''expense'', emb_expense_id emb)
      | Some t \<Rightarrow> (if t = [] then (''expense'', emb_expense_id emb) else (t, emb_item_id emb)))"

fun load_rows :: "'v embedding list \<Rightarrow> 'v service \<Rightarrow> 'v service" where
  "load_rows [] svc = svc"
| "load_rows (emb # rest) svc =
     load_rows rest (add_vector_to_index (fst (row_key emb)) (snd (row_key emb)) (emb_vector emb) svc)"

definition load_from_db ::
  "'v embedder \<Rightarrow> 'v database \<Rightarrow> 'v service \<Rightarrow> error option \<times> 'v service \<times> 'v database" where
  "load_from_db em db svc =
     (let svc1 = ensure_schema svc
      in case backfill_missing_embeddings em db of
           (Some e, db1) \<Rightarrow> (Some e, svc1, db1)
         | (None, db1) \<Rightarrow> (None, load_rows (embeddings db1) svc1, db1))"

text \<open>
  \<open>EmbeddingService.search\<close>: \<open>knn\<close> stands for the search of the FAISS index, which
  returns slots with their distances; a slot outside the map is skipped.
\<close>

definition service_search ::
  "('v list \<Rightarrow> 'q \<Rightarrow> int \<Rightarrow> (nat \<times> rat) list) \<Rightarrow> 'v service \<Rightarrow> 'q \<Rightarrow> int
     \<Rightarrow> (string \<times> int option \<times> rat) list" where
  "service_search knn svc query_embedding k =
     concat (map (\<lambda>(idx, distance).
                    case id_map svc idx of
                      None \<Rightarrow> []
                    | Some (item_type, item_id) \<Rightarrow> [(item_type, item_id, 1 / (1 + distance))])
               (knn (index svc) query_embedding k))"

section \<open>The expense service and the claim service\<close>

record expense_create =
  ec_date :: date
  ec_amount :: rat
  ec_label :: string
  ec_item :: string
  ec_category :: string
  ec_description :: "string option"
  ec_gst_eligible :: bool

text \<open>The id that the database gives to a new expense.\<close>

definition fresh_id :: "'v database \<Rightarrow> int" where
  "fresh_id db = fold max (map e_id (expenses db)) 0 + 1"

text \<open>
  \<open>ExpenseService.create_expense\<close>: the expense is committed, then indexed when a
  service is passed; the call to \<open>add_expense\<close> is not inside a \<open>try\<close>.
\<close>

definition create_expense ::
  "'v embedder \<Rightarrow> 'v database \<Rightarrow> expense_create \<Rightarrow> int \<Rightarrow> 'v service option
     \<Rightarrow> (error + expense) \<times> 'v database \<times> 'v service option" where
  "create_expense em db expense_data user_id embedding_service =
     (let expense =
            \<lparr> e_id = fresh_id db, e_user_id = user_id, e_date = Some (ec_date expense_data),
              e_amount = ec_amount expense_data, e_label = ec_label expense_data,
              e_item = ec_item expense_data, e_category = ec_category expense_data,
              e_description = ec_description expense_data, e_status = ''pending'',
              e_gst_eligible = ec_gst_eligible expense_data,
              e_gst_amount = (if ec_gst_eligible expense_data
                              then ec_amount expense_data * (9 / 50) else 0) \<rparr>;
          db1 = db\<lparr>expenses := expenses db @ [expense]\<rparr>
      in case embedding_service of
           None \<Rightarrow> (Inr expense, db1, None)
         | Some svc \<Rightarrow>
             (case add_expense em expense db1 svc of
                (Some e, svc1, db2) \<Rightarrow> (Inl e, db2, Some svc1)
              | (None, svc1, db2) \<Rightarrow> (Inr expense, db2, Some svc1)))"

text \<open>The route \<open>POST /api/expenses/\<close>: any exception becomes the status 500.\<close>

definition create_expense_route ::
  "'v embedder \<Rightarrow> 'v database \<Rightarrow> expense_create \<Rightarrow> int \<Rightarrow> 'v service
     \<Rightarrow> (nat + expense) \<times> 'v database \<times> 'v service option" where
  "create_expense_route em db expense_data user_id svc =
     (case create_expense em db expense_data user_id (Some svc) of
        (Inl e, db1, svc1) \<Rightarrow> (Inl 500, db1, svc1)
      | (Inr expense, db1, svc1) \<Rightarrow> (Inr expense, db1, svc1))"

text \<open>\<open>GSTService._create_embedding_for_claim\<close>: the same indexing of a claim, inside
  \<open>try\<close> ... \<open>except Exception\<close>, which prints a warning and goes on.\<close>

definition create_embedding_for_claim ::
  "'v embedder \<Rightarrow> 'v database \<Rightarrow> gst_claim \<Rightarrow> 'v service \<Rightarrow> 'v service \<times> 'v database" where
  "create_embedding_for_claim em db claim svc =
     (case get_gst_claim db (g_id claim) of
        None \<Rightarrow> (svc, db)
      | Some claim_with_user \<Rightarrow>
          (case add_gst_claim em claim_with_user db svc of
             (err, svc1, db1) \<Rightarrow> (svc1, db1)))"

section \<open>Properties of the spelling correction\<close>

lemma try_cutoffs_ratio:
  "try_cutoffs w v cs = Some m \<Longrightarrow> 7 / 10 \<le> ratio w m \<or> (w = ''pertol'' \<and> m = ''petrol'')"
  by (induction cs) (auto split: list.splits if_splits)

lemma ratio_gst_gas: "ratio ''gst'' ''gas'' = 2 / 3"
  by code_simp

lemma lower_gst: "lower ''gst'' = ''gst''"
  by code_simp

lemma lower_pertol: "lower ''pertol'' = ''pertol''"
  by code_simp

lemma typo_gst: "map_of TYPO_CORRECTIONS ''gst'' = None"
  by (simp add: TYPO_CORRECTIONS_def)

lemma gst_never_gas: "correct_spelling ''gst'' vocabulary \<noteq> ''gas''"
proof -
  have b: "try_cutoffs ''gst'' v cs \<noteq> Some ''gas''" for v cs
    using try_cutoffs_ratio [of "''gst''" v cs "''gas''"] by (auto simp: ratio_gst_gas)
  have c: "the (try_cutoffs ''gst'' v cs) \<noteq> ''gas''"
    if "try_cutoffs ''gst'' v cs \<noteq> None" for v cs
    using that b [of v cs] by (cases "try_cutoffs ''gst'' v cs") auto
  show ?thesis
    unfolding correct_spelling_def Let_def lower_gst typo_gst
    using c by (simp del: try_cutoffs.simps)
qed

lemma pertol_petrol: "correct_spelling ''pertol'' vocabulary = ''petrol''"
  by (simp add: correct_spelling_def Let_def lower_pertol TYPO_CORRECTIONS_def)

lemma gst_kept: "correct_spelling ''gst'' None = ''gst''"
  by (simp add: correct_spelling_def Let_def lower_gst typo_gst EXPENSE_VOCABULARY_def)

lemma gst_kept_extended:
  "correct_spelling ''gst'' (Some (EXPENSE_VOCABULARY @ extra)) = ''gst''"
  by (simp add: correct_spelling_def Let_def lower_gst typo_gst EXPENSE_VOCABULARY_def)

text \<open>
  Claim C8. The spelling correction maps the token \<open>pertol\<close> to \<open>petrol\<close>, whatever the
  vocabulary. It never maps the token \<open>gst\<close> to \<open>gas\<close>, whatever the vocabulary, and it
  keeps \<open>gst\<close> unchanged under the vocabulary of the service and under every extension
  of it; the normalized query of either token is the corrected token.
\<close>

theorem typo_correction_boundary:
  "correct_spelling ''pertol'' vocabulary = ''petrol''
   \<and> correct_spelling ''gst'' vocabulary \<noteq> ''gas''
   \<and> correct_spelling ''gst'' None = ''gst''
   \<and> correct_spelling ''gst'' (Some (EXPENSE_VOCABULARY @ extra)) = ''gst''
   \<and> normalize_query ''pertol'' = ''petrol''
   \<and> normalize_query ''gst'' = ''gst''"
proof -
  have w1: "words_of ''pertol'' = [''pertol'']" by code_simp
  have w2: "words_of ''gst'' = [''gst'']" by code_simp
  have n1: "normalize_query ''pertol'' = ''petrol''"
    by (simp add: normalize_query_def lower_pertol w1 pertol_petrol)
  have n2: "normalize_query ''gst'' = ''gst''"
    by (simp add: normalize_query_def lower_gst w2 gst_kept)
  show ?thesis
    using pertol_petrol gst_never_gas gst_kept gst_kept_extended n1 n2 by blast
qed

theorem typo_correction_boundary_witness:
  "correct_spelling ''pertol'' (Some [''gas'', ''petrol'']) = ''petrol''
   \<and> correct_spelling ''gst'' (Some [''gas'', ''petrol'']) \<noteq> ''gas''
   \<and> correct_spelling ''gst'' (Some (EXPENSE_VOCABULARY @ [''gas station''])) = ''gst''"
  using typo_correction_boundary [of "Some [''gas'', ''petrol'']" "[''gas station'']"]
  by blast

end
